theory Spec2Isabelle
  imports Main
begin

section \<open>Values exchanged with the host language and the web framework\<close>

text \<open>
  The module \<^verbatim>\<open>app/main.py\<close> is the composition root of a web API server. Its
  statements are embedded one by one: values returned by handlers are JSON trees,
  a raised exception is a value of type \<open>exception\<close>, and every call of a collaborator
  that lives outside the module (the configuration loader, the persistence initializer,
  the operating system) reads its outcome from a record of externals.
\<close>

datatype json = JBool bool | JStr string | JObj "(string \<times> json) list"

text \<open>
  A raised object is either an instance of a subclass of \<^verbatim>\<open>Exception\<close> or an instance
  of a class that derives from \<^verbatim>\<open>BaseException\<close> only (\<^verbatim>\<open>SystemExit\<close>,
  \<^verbatim>\<open>KeyboardInterrupt\<close>, \<^verbatim>\<open>GeneratorExit\<close>). Both carry the class name and the text.
  The clause \<^verbatim>\<open>except Exception\<close> catches the first kind only.
\<close>

datatype exception = Exception string string | BaseException string string

fun isinstance_Exception :: "exception \<Rightarrow> bool" where
  "isinstance_Exception (Exception _ _) = True"
| "isinstance_Exception (BaseException _ _) = False"

type_synonym 'a outcome = "exception + 'a"

text \<open>
  What a handler hands back to the framework: a plain dictionary (serialised as JSON
  with the route's default status 200), a \<^verbatim>\<open>JSONResponse\<close> with its status code and
  content, or a \<^verbatim>\<open>FileResponse\<close> with its path, its status code (the constructor's
  default is 200) and its media type. \<open>status_code\<close> is the attribute of the object as it
  was constructed. A \<^verbatim>\<open>FileResponse\<close> looks at its file only when it is sent: whether
  that succeeds is decided by \<open>deliver\<close> below, not by this attribute.
\<close>

datatype response =
    Dict "(string \<times> json) list"
  | JSONResponse nat "(string \<times> json) list"
  | FileResponse string nat string

fun status_code :: "response \<Rightarrow> nat" where
  "status_code (Dict _) = 200"
| "status_code (JSONResponse s _) = s"
| "status_code (FileResponse _ s _) = s"

fun body :: "response \<Rightarrow> (string \<times> json) list" where
  "body (Dict kvs) = kvs"
| "body (JSONResponse _ kvs) = kvs"
| "body (FileResponse _ _ _) = []"

record request =
  http_method :: string
  url_path :: string

section \<open>The operating system\<close>

type_synonym environ = "string \<rightharpoonup> string"

text \<open>\<^verbatim>\<open>os.getenv(key, default)\<close>.\<close>

definition os_getenv :: "environ \<Rightarrow> string \<Rightarrow> string \<Rightarrow> string" where
  "os_getenv env key dflt = (case env key of None \<Rightarrow> dflt | Some v \<Rightarrow> v)"

text \<open>
  The two file-system tests the module uses, \<^verbatim>\<open>os.path.isdir\<close> and
  \<^verbatim>\<open>os.path.exists\<close>, and the test the framework makes when it sends a file:
  \<open>path_isfile\<close> holds when \<^verbatim>\<open>os.stat\<close> finds a regular file at the path.
\<close>

record filesystem =
  path_isdir :: "string \<Rightarrow> bool"
  path_exists :: "string \<Rightarrow> bool"
  path_isfile :: "string \<Rightarrow> bool"

text \<open>\<^verbatim>\<open>os.path.dirname\<close> and \<^verbatim>\<open>os.path.join\<close> (two arguments), as on POSIX.\<close>

definition rstrip_sep :: "string \<Rightarrow> string" where
  "rstrip_sep s = rev (dropWhile (\<lambda>c. c = CHR ''/'') (rev s))"

definition os_path_dirname :: "string \<Rightarrow> string" where
  "os_path_dirname p =
     (let head = rev (dropWhile (\<lambda>c. c \<noteq> CHR ''/'') (rev p))
      in if head \<noteq> [] \<and> head \<noteq> replicate (length head) (CHR ''/'')
         then rstrip_sep head else head)"

definition os_path_join :: "string \<Rightarrow> string \<Rightarrow> string" where
  "os_path_join a b =
     (if take 1 b = ''/'' then b
      else if a = [] \<or> last a = CHR ''/'' then a @ b
      else a @ ''/'' @ b)"

section \<open>Sending a response\<close>

text \<open>
  What reaches the client: a JSON body with its status, or the file at a path with its
  status and media type.
\<close>

datatype delivered =
    Json_sent nat "(string \<times> json) list"
  | File_sent nat string string

text \<open>
  The framework sends what the handler returned. A dictionary and a \<^verbatim>\<open>JSONResponse\<close>
  are sent as they are. A \<^verbatim>\<open>FileResponse\<close> stats its path first and raises
  \<^verbatim>\<open>RuntimeError\<close> when there is nothing at the path or when what is there is not a
  regular file (a directory, for one).
\<close>

definition deliver :: "filesystem \<Rightarrow> response \<Rightarrow> delivered outcome" where
  "deliver fs r =
     (case r of
        Dict kvs \<Rightarrow> Inr (Json_sent 200 kvs)
      | JSONResponse s kvs \<Rightarrow> Inr (Json_sent s kvs)
      | FileResponse path s mt \<Rightarrow>
          if \<not> path_exists fs path
          then Inl (Exception ''RuntimeError'' (''File at path '' @ path @ '' does not exist.''))
          else if \<not> path_isfile fs path
          then Inl (Exception ''RuntimeError'' (''File at path '' @ path @ '' is not a file.''))
          else Inr (File_sent s path mt))"

section \<open>Configuration\<close>

text \<open>
  Modelled from the spec: the type of the object \<^verbatim>\<open>get_config()\<close> returns
  (\<^verbatim>\<open>app.utils.config\<close> is not part of the source at hand). The spec describes an
  immutable snapshot with an optional AI credential, absent or empty when the service is
  unconfigured, and an allowed-origin string. The module reads the attribute
  \<^verbatim>\<open>gemini_api_key\<close> only.
\<close>

record config =
  gemini_api_key :: "string option"
  allowed_origin :: string

text \<open>\<^verbatim>\<open>bool(x)\<close> for an optional string: \<^verbatim>\<open>None\<close> and the empty string are falsy.\<close>

fun py_bool :: "string option \<Rightarrow> bool" where
  "py_bool None = False"
| "py_bool (Some s) = (s \<noteq> [])"

section \<open>The application object\<close>

record cors_middleware =
  allow_origins :: "string list"
  allow_credentials :: bool
  allow_methods :: "string list"
  allow_headers :: "string list"

datatype endpoint = Favicon | Root | Health_check | Global_exception_handler

datatype route =
    Mount string string string
  | APIRoute string endpoint
  | IncludedRouter string string "string list"

text \<open>
  The fields of the application the module sets. \<open>gemini_available\<close> is the attribute of
  that name on \<^verbatim>\<open>app.state\<close>: \<open>None\<close> while the attribute has not been assigned.
  \<open>routes\<close> lists what this module registers, in order: \<open>Mount path directory name\<close>
  for a static mount, \<open>APIRoute path endpoint\<close> for a GET route, and
  \<open>IncludedRouter router prefix tags\<close> for a route group.
\<close>

record fastapi =
  title :: string
  description :: string
  version :: string
  docs_url :: string
  redoc_url :: string
  gemini_available :: "bool option"
  user_middleware :: "cors_middleware list"
  routes :: "route list"
  exception_handlers :: "(string \<times> endpoint) list"

definition FastAPI :: "string \<Rightarrow> string \<Rightarrow> string \<Rightarrow> string \<Rightarrow> string \<Rightarrow> fastapi" where
  "FastAPI t d v du ru =
     \<lparr>title = t, description = d, version = v, docs_url = du, redoc_url = ru,
      gemini_available = None, user_middleware = [], routes = [], exception_handlers = []\<rparr>"

definition add_middleware :: "cors_middleware \<Rightarrow> fastapi \<Rightarrow> fastapi" where
  "add_middleware mw a = a\<lparr>user_middleware := mw # user_middleware a\<rparr>"

definition add_route :: "route \<Rightarrow> fastapi \<Rightarrow> fastapi" where
  "add_route r a = a\<lparr>routes := routes a @ [r]\<rparr>"

definition exception_handler :: "string \<Rightarrow> endpoint \<Rightarrow> fastapi \<Rightarrow> fastapi" where
  "exception_handler cls h a = a\<lparr>exception_handlers := exception_handlers a @ [(cls, h)]\<rparr>"

text \<open>
  \<^verbatim>\<open>StaticFiles(directory=d)\<close> checks its directory when it is constructed and raises
  \<^verbatim>\<open>RuntimeError\<close> when there is none; the result is the directory it will serve.
\<close>

definition StaticFiles :: "filesystem \<Rightarrow> string \<Rightarrow> string outcome" where
  "StaticFiles fs d =
     (if path_isdir fs d then Inr d
      else Inl (Exception ''RuntimeError'' (''Directory '' @ d @ '' does not exist'')))"

section \<open>Externals and module state\<close>

text \<open>
  Everything the module takes from outside. \<open>load_dotenv\<close> is the effect of the call
  of that name on the process environment \<open>os_environ\<close>; \<open>module_file\<close> is
  \<^verbatim>\<open>__file__\<close>; \<open>import_fs\<close> is the file system while the module is imported.
  \<open>get_config_at_import\<close> and \<open>get_config_at_startup\<close> are the outcomes of the two
  calls of \<^verbatim>\<open>get_config()\<close> (line 19 and line 31): a snapshot or a raised exception.
  \<open>init_database\<close> is the outcome of the persistence initializer: \<open>None\<close> when it
  returns, \<open>Some e\<close> when it raises \<open>e\<close>.
\<close>

record externals =
  os_environ :: environ
  load_dotenv :: "environ \<Rightarrow> environ"
  module_file :: string
  import_fs :: filesystem
  get_config_at_import :: "config outcome"
  init_database :: "exception option"
  get_config_at_startup :: "config outcome"

text \<open>The module's globals: \<^verbatim>\<open>config\<close>, \<^verbatim>\<open>app\<close> and \<^verbatim>\<open>static_dir\<close>.\<close>

record module =
  config :: config
  app :: fastapi
  static_dir :: string

text \<open>
  Lines 43 to 128: the application is built, the flag is given its default, the CORS
  middleware is added, the static directory is mounted when it is there, and the routes,
  the five route groups and the exception handler are registered in source order.
\<close>

definition create_app :: "environ \<Rightarrow> filesystem \<Rightarrow> string \<Rightarrow> (fastapi \<times> string) outcome" where
  "create_app env fs file =
     (let a0 = FastAPI ''AI Supply Chain Management Platform''
                 ''AI-powered supply chain management for Indian retail businesses''
                 ''1.0.0'' ''/docs'' ''/redoc'';
          a1 = a0\<lparr>gemini_available := Some False\<rparr>;
          a2 = add_middleware
                 \<lparr>allow_origins = [os_getenv env ''CLIENT_URL'' ''*''],
                  allow_credentials = True,
                  allow_methods = [''*''],
                  allow_headers = [''*'']\<rparr> a1;
          sd = os_path_join (os_path_dirname file) ''static'';
          mounted =
            (if path_isdir fs sd
             then (case StaticFiles fs sd of
                     Inl e \<Rightarrow> Inl e
                   | Inr d \<Rightarrow> Inr (add_route (Mount ''/static'' d ''static'') a2))
             else Inr a2)
      in case mounted of
           Inl e \<Rightarrow> Inl e
         | Inr a3 \<Rightarrow>
             Inr (exception_handler ''Exception'' Global_exception_handler
                   (add_route (APIRoute ''/health'' Health_check)
                   (add_route (APIRoute ''/'' Root)
                   (add_route (IncludedRouter ''reports'' ''/api/reports'' [''reports''])
                   (add_route (IncludedRouter ''scenarios'' ''/api/scenarios'' [''scenarios''])
                   (add_route (IncludedRouter ''logistics'' ''/api/logistics'' [''logistics''])
                   (add_route (IncludedRouter ''inventory'' ''/api/inventory'' [''inventory''])
                   (add_route (IncludedRouter ''demand'' ''/api/demand'' [''demand''])
                   (add_route (APIRoute ''/favicon.ico'' Favicon) a3)))))))), sd))"

text \<open>
  Importing the module: the environment file is loaded, the configuration is read once
  (line 19; an exception there ends the import), and the application is built.
\<close>

definition module_import :: "externals \<Rightarrow> module outcome" where
  "module_import x =
     (let env = load_dotenv x (os_environ x)
      in case get_config_at_import x of
           Inl e \<Rightarrow> Inl e
         | Inr cfg \<Rightarrow>
             (case create_app env (import_fs x) (module_file x) of
                Inl e \<Rightarrow> Inl e
              | Inr (a, sd) \<Rightarrow> Inr \<lparr>config = cfg, app = a, static_dir = sd\<rparr>))"

section \<open>The lifecycle hook\<close>

text \<open>
  The effects of the hook, in the order they happen. \<open>Yield\<close> is the point where the
  hook hands control to the server: requests are served between it and the shutdown.
\<close>

datatype event =
    Call_init_database
  | Print string
  | Call_get_config
  | Assign_gemini_available bool
  | Yield

definition msg_database_initialized :: string where
  "msg_database_initialized = [CHR 0xE2, CHR 0x9C, CHR 0x85] @ '' Database initialized''"

definition msg_shutting_down :: string where
  "msg_shutting_down = [CHR 0xF0, CHR 0x9F, CHR 0x9B, CHR 0x91] @ '' Shutting down gracefully''"

text \<open>
  The \<^verbatim>\<open>try\<close> statement of lines 30 to 34 on its own: the effects, the application
  afterwards, and the exception that leaves the statement, if any.
\<close>

definition expose_ai_flag :: "externals \<Rightarrow> fastapi \<Rightarrow> event list \<times> fastapi \<times> exception option" where
  "expose_ai_flag x a =
     (case get_config_at_startup x of
        Inr cfg \<Rightarrow>
          (let b = py_bool (gemini_api_key cfg)
           in ([Call_get_config, Assign_gemini_available b],
               a\<lparr>gemini_available := Some b\<rparr>, None))
      | Inl e \<Rightarrow>
          if isinstance_Exception e
          then ([Call_get_config, Assign_gemini_available False],
                a\<lparr>gemini_available := Some False\<rparr>, None)
          else ([Call_get_config], a, Some e))"

text \<open>
  The hook up to its \<^verbatim>\<open>yield\<close> (lines 26 to 36). The third component is \<open>None\<close> when
  the \<^verbatim>\<open>yield\<close> is reached and the exception that leaves the hook otherwise.
\<close>

definition lifespan_startup :: "externals \<Rightarrow> fastapi \<Rightarrow> event list \<times> fastapi \<times> exception option" where
  "lifespan_startup x a =
     (case init_database x of
        Some e \<Rightarrow> ([Call_init_database], a, Some e)
      | None \<Rightarrow>
          (case expose_ai_flag x a of
             (tr, a', Some e) \<Rightarrow>
               (Call_init_database # Print msg_database_initialized # tr, a', Some e)
           | (tr, a', None) \<Rightarrow>
               (Call_init_database # Print msg_database_initialized # tr @ [Yield], a', None)))"

text \<open>The hook after its \<^verbatim>\<open>yield\<close> (line 39).\<close>

definition lifespan_shutdown :: "fastapi \<Rightarrow> event list \<times> fastapi" where
  "lifespan_shutdown a = ([Print msg_shutting_down], a)"

section \<open>Handlers\<close>

text \<open>
  A handler runs in the module's globals and returns its outcome with the globals as it
  leaves them. The clock reading of \<^verbatim>\<open>datetime.now().isoformat()\<close> and the file system
  at the time of the call are arguments.
\<close>

definition favicon :: "filesystem \<Rightarrow> module \<Rightarrow> response outcome \<times> module" where
  "favicon fs m =
     (let path = os_path_join (static_dir m) ''favicon.svg''
      in if path_exists fs path
         then (Inr (FileResponse path 200 ''image/svg+xml''), m)
         else (Inr (Dict [(''detail'', JStr ''favicon not found'')]), m))"

definition root :: "module \<Rightarrow> response outcome \<times> module" where
  "root m =
     (Inr (Dict
        [(''name'', JStr ''AI Supply Chain Management Platform''),
         (''version'', JStr ''1.0.0''),
         (''description'', JStr ''AI-powered supply chain management for Indian retail businesses''),
         (''ai_model'', JStr ''Gemini 2.5 Pro''),
         (''market_focus'', JStr ''Indian Retail MSME''),
         (''endpoints'', JObj
            [(''demand_forecasting'', JStr ''/api/demand/forecast''),
             (''inventory_management'', JStr ''/api/inventory/''),
             (''logistics_tracking'', JStr ''/api/logistics/shipments''),
             (''scenario_analysis'', JStr ''/api/scenarios/analyze''),
             (''reports'', JStr ''/api/reports/'')])]), m)"

definition health_check :: "string \<Rightarrow> module \<Rightarrow> response outcome \<times> module" where
  "health_check now m =
     (case gemini_available (app m) of
        None \<Rightarrow> (Inl (Exception ''AttributeError'' ''gemini_available''), m)
      | Some flag \<Rightarrow>
          (Inr (Dict
             [(''status'', JStr ''healthy''),
              (''timestamp'', JStr now),
              (''version'', JStr ''1.0.0''),
              (''ai_status'', JStr (if flag then ''operational'' else ''unavailable'')),
              (''database'', JStr ''connected'')]), m))"

definition global_exception_handler ::
    "request \<Rightarrow> exception \<Rightarrow> module \<Rightarrow> response outcome \<times> module" where
  "global_exception_handler req exc m =
     (Inr (JSONResponse 500
        [(''success'', JBool False),
         (''error'', JStr ''Internal server error''),
         (''message'', JStr ''Something went wrong. Please try again.'')]), m)"

text \<open>
  A request for \<^verbatim>\<open>/favicon.ico\<close> from the handler to the wire: the handler runs, and
  what it returned is sent on the same file system. The result is what was sent, or the
  exception raised on the way.
\<close>

definition get_favicon_ico :: "filesystem \<Rightarrow> module \<Rightarrow> delivered outcome" where
  "get_favicon_ico fs m =
     (case fst (favicon fs m) of
        Inl e \<Rightarrow> Inl e
      | Inr r \<Rightarrow> deliver fs r)"

section \<open>Running the server\<close>

text \<open>
  The operations of this layer as the server invokes them: the three GET routes, and
  \<open>Escaped req exc\<close>, the call of the exception handler with the request and the
  exception that escaped some route handler. Which exceptions the framework passes to the
  handler is the framework's choice (the handler is registered for \<^verbatim>\<open>Exception\<close>);
  the function itself accepts any.
\<close>

datatype call =
    GET_root
  | GET_health string
  | GET_favicon filesystem
  | Escaped request exception

fun handle :: "call \<Rightarrow> module \<Rightarrow> response outcome \<times> module" where
  "handle GET_root m = root m"
| "handle (GET_health now) m = health_check now m"
| "handle (GET_favicon fs) m = favicon fs m"
| "handle (Escaped req exc) m = global_exception_handler req exc m"

fun serve :: "module \<Rightarrow> call list \<Rightarrow> response outcome list \<times> module" where
  "serve m [] = ([], m)"
| "serve m (c # cs) =
     (case handle c m of
        (r, m') \<Rightarrow> (case serve m' cs of (rs, m'') \<Rightarrow> (r # rs, m'')))"

text \<open>
  A whole run: import, startup, the calls served at the \<^verbatim>\<open>yield\<close>, shutdown. The hook
  is the one the application was built with (\<^verbatim>\<open>lifespan=lifespan\<close>). The body of a
  context manager is not entered when its entry raises, so nothing is served when the
  startup fails.
\<close>

datatype run_result =
    Import_failed exception
  | Startup_failed "event list" fastapi exception
  | Completed "event list" "response outcome list" fastapi

definition run :: "externals \<Rightarrow> call list \<Rightarrow> run_result" where
  "run x cs =
     (case module_import x of
        Inl e \<Rightarrow> Import_failed e
      | Inr m \<Rightarrow>
          (case lifespan_startup x (app m) of
             (tr, a, Some e) \<Rightarrow> Startup_failed tr a e
           | (tr, a, None) \<Rightarrow>
               (case serve (m\<lparr>app := a\<rparr>) cs of
                  (rs, m') \<Rightarrow>
                    (case lifespan_shutdown (app m') of
                       (tr', a') \<Rightarrow> Completed (tr @ tr') rs a'))))"

section \<open>Observations and a concrete deployment\<close>

definition is_flag_write :: "event \<Rightarrow> bool" where
  "is_flag_write ev = (case ev of Assign_gemini_available _ \<Rightarrow> True | _ \<Rightarrow> False)"

definition is_mount :: "route \<Rightarrow> bool" where
  "is_mount r = (case r of Mount _ _ _ \<Rightarrow> True | _ \<Rightarrow> False)"

definition ai_status :: "response outcome \<Rightarrow> json option" where
  "ai_status r = (case r of Inl _ \<Rightarrow> None | Inr resp \<Rightarrow> map_of (body resp) ''ai_status'')"

text \<open>
  A deployment used to run the definitions: the module is \<^verbatim>\<open>/srv/app/main.py\<close>, the
  static directory exists but holds no favicon, \<^verbatim>\<open>CLIENT_URL\<close> is set, the credential
  is absent at import time and present at startup.
\<close>

definition example_fs :: filesystem where
  "example_fs = \<lparr>path_isdir = (\<lambda>p. p = ''/srv/app/static''),
                  path_exists = (\<lambda>p. p = ''/srv/app/static''),
                  path_isfile = (\<lambda>p. False)\<rparr>"

text \<open>
  The same file system after \<^verbatim>\<open>mkdir /srv/app/static/favicon.svg\<close>: the favicon's
  path exists and is a directory.
\<close>

definition favicon_directory_fs :: filesystem where
  "favicon_directory_fs =
     \<lparr>path_isdir = (\<lambda>p. p \<in> {''/srv/app/static'', ''/srv/app/static/favicon.svg''}),
      path_exists = (\<lambda>p. p \<in> {''/srv/app/static'', ''/srv/app/static/favicon.svg''}),
      path_isfile = (\<lambda>p. False)\<rparr>"

definition example_externals :: externals where
  "example_externals =
     \<lparr>os_environ = [''CLIENT_URL'' \<mapsto> ''https://shop.example''],
      load_dotenv = (\<lambda>env. env),
      module_file = ''/srv/app/main.py'',
      import_fs = example_fs,
      get_config_at_import = Inr \<lparr>gemini_api_key = None, allowed_origin = ''*''\<rparr>,
      init_database = None,
      get_config_at_startup = Inr \<lparr>gemini_api_key = Some ''k-123'', allowed_origin = ''*''\<rparr>\<rparr>"

definition example_app :: fastapi where
  "example_app =
     \<lparr>title = ''AI Supply Chain Management Platform'',
      description = ''AI-powered supply chain management for Indian retail businesses'',
      version = ''1.0.0'', docs_url = ''/docs'', redoc_url = ''/redoc'',
      gemini_available = Some False,
      user_middleware =
        [\<lparr>allow_origins = [''https://shop.example''], allow_credentials = True,
          allow_methods = [''*''], allow_headers = [''*'']\<rparr>],
      routes =
        [Mount ''/static'' ''/srv/app/static'' ''static'',
         APIRoute ''/favicon.ico'' Favicon,
         IncludedRouter ''demand'' ''/api/demand'' [''demand''],
         IncludedRouter ''inventory'' ''/api/inventory'' [''inventory''],
         IncludedRouter ''logistics'' ''/api/logistics'' [''logistics''],
         IncludedRouter ''scenarios'' ''/api/scenarios'' [''scenarios''],
         IncludedRouter ''reports'' ''/api/reports'' [''reports''],
         APIRoute ''/'' Root,
         APIRoute ''/health'' Health_check],
      exception_handlers = [(''Exception'', Global_exception_handler)]\<rparr>"

definition example_module :: module where
  "example_module =
     \<lparr>config = \<lparr>gemini_api_key = None, allowed_origin = ''*''\<rparr>,
      app = example_app,
      static_dir = ''/srv/app/static''\<rparr>"

section \<open>Basic facts\<close>

text \<open>No handler assigns to a global or to an attribute of the application.\<close>

lemma handle_state: "snd (handle c m) = m"
  by (cases c) (simp_all add: root_def health_check_def favicon_def global_exception_handler_def
       Let_def split: option.split)

lemma serve_eq: "serve m cs = (map (\<lambda>c. fst (handle c m)) cs, m)"
proof (induction cs)
  case Nil
  show ?case by simp
next
  case (Cons c cs)
  obtain r where r: "handle c m = (r, m)"
    using handle_state [of c m] by (cases "handle c m") simp
  show ?case by (simp add: r Cons.IH)
qed

text \<open>Building the application cannot fail: the mount is guarded by the directory test.\<close>

lemma create_app_total:
  "\<exists>a. create_app env fs file = Inr (a, os_path_join (os_path_dirname file) ''static'')"
  by (simp add: create_app_def StaticFiles_def Let_def)

lemma create_app_flag:
  "create_app env fs file = Inr (a, sd) \<Longrightarrow> gemini_available a = Some False"
  by (auto simp: create_app_def StaticFiles_def Let_def add_route_def add_middleware_def
        exception_handler_def FastAPI_def split: if_splits)

lemma create_app_middleware:
  "create_app env fs file = Inr (a, sd) \<Longrightarrow>
     user_middleware a =
       [\<lparr>allow_origins = [os_getenv env ''CLIENT_URL'' ''*''], allow_credentials = True,
         allow_methods = [''*''], allow_headers = [''*'']\<rparr>]"
  by (auto simp: create_app_def StaticFiles_def Let_def add_route_def add_middleware_def
        exception_handler_def FastAPI_def split: if_splits)

text \<open>The example deployment, evaluated.\<close>

lemma example_dirs:
  "os_path_join (os_path_dirname ''/srv/app/main.py'') ''static'' = ''/srv/app/static''"
  by (simp add: os_path_join_def os_path_dirname_def rstrip_sep_def)

lemma example_create_app:
  "create_app [''CLIENT_URL'' \<mapsto> ''https://shop.example''] example_fs ''/srv/app/main.py''
     = Inr (example_app, ''/srv/app/static'')"
  by (simp add: create_app_def Let_def example_dirs example_fs_def StaticFiles_def os_getenv_def
        add_route_def add_middleware_def exception_handler_def FastAPI_def example_app_def)

lemma example_import: "module_import example_externals = Inr example_module"
  by (simp add: module_import_def example_externals_def example_create_app example_module_def)

lemma example_startup:
  "lifespan_startup example_externals example_app =
     ([Call_init_database, Print msg_database_initialized, Call_get_config,
       Assign_gemini_available True, Yield],
      example_app\<lparr>gemini_available := Some True\<rparr>, None)"
  by (simp add: lifespan_startup_def expose_ai_flag_def example_externals_def)

section \<open>The global exception handler\<close>

text \<open>
  C1. Whatever the request and whatever the exception that escaped a route handler, the
  global exception handler returns the response with status code 500 and the body
  \<^verbatim>\<open>{"success": false, "error": "Internal server error", "message": "Something went wrong. Please try again."}\<close>,
  and leaves the module's state alone. Two calls with different requests, exceptions
  and states return the same response, so nothing of the exception's text or class
  reaches the client.
\<close>

theorem global_exception_handler_constant:
  "global_exception_handler req exc m =
     (Inr (JSONResponse 500
        [(''success'', JBool False),
         (''error'', JStr ''Internal server error''),
         (''message'', JStr ''Something went wrong. Please try again.'')]), m)
   \<and> fst (handle (Escaped req exc) m) = fst (handle (Escaped req' exc') m')
   \<and> (\<exists>r. fst (handle (Escaped req exc) m) = Inr r \<and> status_code r = 500)"
  by (simp add: global_exception_handler_def)

section \<open>The startup phase and the AI-availability flag\<close>

text \<open>
  C2, as the code has it. When the persistence initializer has returned, the startup
  phase sets the flag to "the credential of the freshly loaded configuration is a
  non-empty string" and reaches its \<^verbatim>\<open>yield\<close>; when the reload raises an instance of
  \<^verbatim>\<open>Exception\<close>, it sets the flag to false and reaches its \<^verbatim>\<open>yield\<close> as well;
  when the reload raises any exception that is not an instance of \<^verbatim>\<open>Exception\<close>, that
  exception leaves the hook, the flag is not assigned and the \<^verbatim>\<open>yield\<close> is not reached.
\<close>

theorem lifespan_startup_ai_flag:
  assumes "init_database x = None"
  shows "(get_config_at_startup x = Inr cfg \<longrightarrow>
            lifespan_startup x a =
              ([Call_init_database, Print msg_database_initialized, Call_get_config,
                Assign_gemini_available (\<exists>k. gemini_api_key cfg = Some k \<and> k \<noteq> []), Yield],
               a\<lparr>gemini_available :=
                   Some (\<exists>k. gemini_api_key cfg = Some k \<and> k \<noteq> [])\<rparr>, None))
       \<and> (get_config_at_startup x = Inl e \<and> isinstance_Exception e \<longrightarrow>
            lifespan_startup x a =
              ([Call_init_database, Print msg_database_initialized, Call_get_config,
                Assign_gemini_available False, Yield],
               a\<lparr>gemini_available := Some False\<rparr>, None))
       \<and> (get_config_at_startup x = Inl e \<and> \<not> isinstance_Exception e \<longrightarrow>
            lifespan_startup x a =
              ([Call_init_database, Print msg_database_initialized, Call_get_config],
               a, Some e))"
proof -
  have "py_bool k = (\<exists>s. k = Some s \<and> s \<noteq> [])" for k
    by (cases k) simp_all
  with assms show ?thesis
    by (simp add: lifespan_startup_def expose_ai_flag_def Let_def)
qed

text \<open>
  The theorem at work: the example deployment with its credential present, the same
  deployment with a loader that raises \<^verbatim>\<open>ValueError\<close>, and with a loader interrupted
  by \<^verbatim>\<open>KeyboardInterrupt\<close>.
\<close>

theorem lifespan_startup_ai_flag_witness:
  "lifespan_startup example_externals example_app
     = ([Call_init_database, Print msg_database_initialized, Call_get_config,
         Assign_gemini_available True, Yield],
        example_app\<lparr>gemini_available := Some True\<rparr>, None)
   \<and> lifespan_startup
        (example_externals\<lparr>get_config_at_startup := Inl (Exception ''ValueError'' ''bad key'')\<rparr>)
        example_app
     = ([Call_init_database, Print msg_database_initialized, Call_get_config,
         Assign_gemini_available False, Yield],
        example_app\<lparr>gemini_available := Some False\<rparr>, None)
   \<and> lifespan_startup
        (example_externals\<lparr>get_config_at_startup := Inl (BaseException ''KeyboardInterrupt'' [])\<rparr>)
        example_app
     = ([Call_init_database, Print msg_database_initialized, Call_get_config],
        example_app, Some (BaseException ''KeyboardInterrupt'' []))"
proof -
  let ?cfg = "\<lparr>gemini_api_key = Some ''k-123'', allowed_origin = ''*''\<rparr>"
  let ?e = "Exception ''ValueError'' ''bad key''"
  let ?k = "BaseException ''KeyboardInterrupt'' []"
  let ?x = "example_externals\<lparr>get_config_at_startup := Inl ?e\<rparr>"
  let ?y = "example_externals\<lparr>get_config_at_startup := Inl ?k\<rparr>"
  have i1: "init_database example_externals = None"
    and g1: "get_config_at_startup example_externals = Inr ?cfg"
    and i2: "init_database ?x = None"
    and g2: "get_config_at_startup ?x = Inl ?e"
    and i3: "init_database ?y = None"
    and g3: "get_config_at_startup ?y = Inl ?k"
    by (simp_all add: example_externals_def)
  have "lifespan_startup example_externals example_app
     = ([Call_init_database, Print msg_database_initialized, Call_get_config,
         Assign_gemini_available True, Yield],
        example_app\<lparr>gemini_available := Some True\<rparr>, None)"
    using lifespan_startup_ai_flag [OF i1, where cfg = ?cfg and a = example_app] g1 by simp
  moreover have "lifespan_startup ?x example_app
     = ([Call_init_database, Print msg_database_initialized, Call_get_config,
         Assign_gemini_available False, Yield],
        example_app\<lparr>gemini_available := Some False\<rparr>, None)"
    using lifespan_startup_ai_flag [OF i2, where e = ?e and a = example_app] g2 by simp
  moreover have "lifespan_startup ?y example_app
     = ([Call_init_database, Print msg_database_initialized, Call_get_config],
        example_app, Some ?k)"
    using lifespan_startup_ai_flag [OF i3, where e = ?k and a = example_app] g3 by simp
  ultimately show ?thesis by simp
qed

text \<open>
  C2 as the spec words it (any exception of the reload is absorbed) fails for an
  exception outside \<^verbatim>\<open>Exception\<close>: when the loader ends with \<^verbatim>\<open>SystemExit\<close>, the
  exception leaves the hook, the flag is not assigned, the \<^verbatim>\<open>yield\<close> is not reached
  and the run serves no request.
\<close>

theorem lifespan_startup_SystemExit_counterexample:
  "run (example_externals\<lparr>get_config_at_startup := Inl (BaseException ''SystemExit'' ''1'')\<rparr>)
       [GET_health ''2026-01-01T00:00:00'']
   = Startup_failed [Call_init_database, Print msg_database_initialized, Call_get_config]
       example_app (BaseException ''SystemExit'' ''1'')
   \<and> snd (snd (lifespan_startup
        (example_externals\<lparr>get_config_at_startup := Inl (BaseException ''SystemExit'' ''1'')\<rparr>)
        example_app)) \<noteq> None"
proof -
  have "module_import
          (example_externals\<lparr>get_config_at_startup := Inl (BaseException ''SystemExit'' ''1'')\<rparr>)
          = Inr example_module"
    by (simp add: module_import_def example_externals_def example_create_app example_module_def)
  then show ?thesis
    by (simp add: run_def lifespan_startup_def expose_ai_flag_def example_externals_def
          example_module_def)
qed

section \<open>The health endpoint\<close>

text \<open>
  C3. Whatever the value of the AI-availability flag, the health handler returns a JSON
  object whose keys are exactly status, timestamp, version, ai_status and database, in
  that order: status is "healthy", timestamp is the clock reading, version is "1.0.0",
  ai_status is "operational" when the flag is true and "unavailable" when it is false,
  and database is "connected". The handler takes nothing from the persistence layer, so
  no connectivity check can influence the answer; the module's state is left as it was.
\<close>

theorem health_check_response:
  assumes "gemini_available (app m) = Some flag"
  shows "\<exists>r. health_check now m = (Inr r, m)
       \<and> map fst (body r) = [''status'', ''timestamp'', ''version'', ''ai_status'', ''database'']
       \<and> map_of (body r) ''status'' = Some (JStr ''healthy'')
       \<and> map_of (body r) ''timestamp'' = Some (JStr now)
       \<and> map_of (body r) ''version'' = Some (JStr ''1.0.0'')
       \<and> map_of (body r) ''ai_status''
            = Some (JStr (if flag then ''operational'' else ''unavailable''))
       \<and> map_of (body r) ''database'' = Some (JStr ''connected'')"
  using assms by (simp add: health_check_def)

text \<open>
  The theorem at the module as imported in the example deployment, where the flag still
  has its default.
\<close>

theorem health_check_response_witness:
  "gemini_available (app example_module) = Some False
   \<and> (\<exists>r. health_check ''2026-01-01T00:00:00'' example_module = (Inr r, example_module)
       \<and> map fst (body r) = [''status'', ''timestamp'', ''version'', ''ai_status'', ''database'']
       \<and> map_of (body r) ''ai_status'' = Some (JStr ''unavailable'')
       \<and> map_of (body r) ''database'' = Some (JStr ''connected''))"
proof -
  have f: "gemini_available (app example_module) = Some False"
    by (simp add: example_module_def example_app_def)
  from health_check_response [OF f, of "''2026-01-01T00:00:00''"]
  have "\<exists>r. health_check ''2026-01-01T00:00:00'' example_module = (Inr r, example_module)
       \<and> map fst (body r) = [''status'', ''timestamp'', ''version'', ''ai_status'', ''database'']
       \<and> map_of (body r) ''ai_status'' = Some (JStr ''unavailable'')
       \<and> map_of (body r) ''database'' = Some (JStr ''connected'')"
    by auto
  with f show ?thesis by (rule conjI)
qed

section \<open>Writes to the flag\<close>

lemma lifespan_startup_writes:
  "length (filter is_flag_write (fst (lifespan_startup x a))) \<le> 1"
  by (auto simp: lifespan_startup_def expose_ai_flag_def is_flag_write_def Let_def
        split: option.splits sum.splits)

lemma lifespan_startup_frame:
  "fst (snd (lifespan_startup x a))
     = a\<lparr>gemini_available := gemini_available (fst (snd (lifespan_startup x a)))\<rparr>"
  by (auto simp: lifespan_startup_def expose_ai_flag_def Let_def
        split: option.splits sum.splits)

lemma serve_health:
  assumes "gemini_available (app m) = Some b" and "i < length cs" and "cs ! i = GET_health now"
  shows "ai_status (fst (serve m cs) ! i)
           = Some (JStr (if b then ''operational'' else ''unavailable''))"
  using assms by (simp add: serve_eq ai_status_def health_check_def)

text \<open>
  C4. The flag is write-once. Building the application always succeeds and leaves the
  flag false. The startup phase assigns the flag at most once and changes nothing else
  of the application. No handler (root, health, favicon, exception handler), no sequence
  of served calls and not the shutdown phase changes the module's state. Hence, when the
  flag is \<open>b\<close> as serving begins, every health call among the served calls reports the
  ai_status that belongs to \<open>b\<close>.
\<close>

theorem gemini_available_write_once:
  "(\<exists>a sd. create_app env fs file = Inr (a, sd) \<and> gemini_available a = Some False)
   \<and> length (filter is_flag_write (fst (lifespan_startup x a0))) \<le> 1
   \<and> fst (snd (lifespan_startup x a0))
       = a0\<lparr>gemini_available := gemini_available (fst (snd (lifespan_startup x a0)))\<rparr>
   \<and> snd (handle c m) = m
   \<and> snd (serve m cs) = m
   \<and> snd (lifespan_shutdown a1) = a1
   \<and> (gemini_available (app m) = Some b \<longrightarrow>
        (\<forall>i now. i < length cs \<and> cs ! i = GET_health now \<longrightarrow>
           ai_status (fst (serve m cs) ! i)
             = Some (JStr (if b then ''operational'' else ''unavailable''))))"
proof -
  obtain a where a: "create_app env fs file = Inr (a, os_path_join (os_path_dirname file) ''static'')"
    using create_app_total by blast
  have "\<exists>a sd. create_app env fs file = Inr (a, sd) \<and> gemini_available a = Some False"
    using a create_app_flag [OF a] by blast
  moreover have "snd (serve m cs) = m"
    by (simp add: serve_eq)
  moreover have "snd (lifespan_shutdown a1) = a1"
    by (simp add: lifespan_shutdown_def)
  ultimately show ?thesis
    using lifespan_startup_writes [of x a0] lifespan_startup_frame [of x a0]
      handle_state [of c m] serve_health [of m b _ cs]
    by blast
qed

text \<open>
  The theorem at the example module after its startup (flag true), serving two health
  calls with a root call and a favicon call between them.
\<close>

theorem gemini_available_write_once_witness:
  "gemini_available (app (example_module\<lparr>app := example_app\<lparr>gemini_available := Some True\<rparr>\<rparr>)) = Some True
   \<and> ai_status (fst (serve (example_module\<lparr>app := example_app\<lparr>gemini_available := Some True\<rparr>\<rparr>)
         [GET_health ''2026-01-01T00:00:00'', GET_root, GET_favicon example_fs,
          GET_health ''2026-01-02T00:00:00'']) ! 0) = Some (JStr ''operational'')
   \<and> ai_status (fst (serve (example_module\<lparr>app := example_app\<lparr>gemini_available := Some True\<rparr>\<rparr>)
         [GET_health ''2026-01-01T00:00:00'', GET_root, GET_favicon example_fs,
          GET_health ''2026-01-02T00:00:00'']) ! 3) = Some (JStr ''operational'')"
proof -
  let ?m = "example_module\<lparr>app := example_app\<lparr>gemini_available := Some True\<rparr>\<rparr>"
  let ?cs = "[GET_health ''2026-01-01T00:00:00'', GET_root, GET_favicon example_fs,
              GET_health ''2026-01-02T00:00:00'']"
  have f: "gemini_available (app ?m) = Some True"
    by simp
  have all: "\<forall>i now. i < length ?cs \<and> ?cs ! i = GET_health now \<longrightarrow>
           ai_status (fst (serve ?m ?cs) ! i) = Some (JStr ''operational'')"
    using gemini_available_write_once [where m = ?m and cs = ?cs and b = True] f by simp
  have "ai_status (fst (serve ?m ?cs) ! 0) = Some (JStr ''operational'')"
    using all [rule_format, of 0 "''2026-01-01T00:00:00''"] by simp
  moreover have "ai_status (fst (serve ?m ?cs) ! 3) = Some (JStr ''operational'')"
    using all [rule_format, of 3 "''2026-01-02T00:00:00''"] by simp
  ultimately show ?thesis using f by simp
qed

section \<open>The persistence initializer\<close>

lemma lifespan_startup_first:
  "\<exists>tr. fst (lifespan_startup x a) = Call_init_database # tr \<and> Call_init_database \<notin> set tr"
  by (auto simp: lifespan_startup_def expose_ai_flag_def Let_def split: option.splits sum.splits)

lemma lifespan_startup_yield:
  "(Yield \<in> set (fst (lifespan_startup x a))) = (snd (snd (lifespan_startup x a)) = None)"
  by (auto simp: lifespan_startup_def expose_ai_flag_def Let_def split: option.splits sum.splits)

text \<open>
  C5. The first effect of the startup phase is the call of the persistence initializer,
  made once: the reload of the configuration, the assignment of the flag and the
  \<^verbatim>\<open>yield\<close> that opens the serving period all come after it, and the \<^verbatim>\<open>yield\<close>
  is reached exactly when no exception leaves the hook. When the initializer raises,
  whatever the class of the exception, the same exception leaves the hook at once: the
  configuration is not reloaded, the application is untouched, and a run serves no call.
\<close>

theorem init_database_first_and_fatal:
  "(\<exists>tr. fst (lifespan_startup x a) = Call_init_database # tr \<and> Call_init_database \<notin> set tr)
   \<and> (Yield \<in> set (fst (lifespan_startup x a))) = (snd (snd (lifespan_startup x a)) = None)
   \<and> (init_database x = Some e \<longrightarrow> lifespan_startup x a = ([Call_init_database], a, Some e))
   \<and> (init_database x = Some e \<and> module_import x = Inr m \<longrightarrow>
        run x cs = Startup_failed [Call_init_database] (app m) e)"
  using lifespan_startup_first [of x a] lifespan_startup_yield [of x a]
  by (simp add: run_def lifespan_startup_def)

text \<open>
  The theorem at the example deployment with a persistence initializer that raises an
  instance of \<^verbatim>\<open>Exception\<close>, which the guard of the reload would have caught.
\<close>

theorem init_database_first_and_fatal_witness:
  "run (example_externals\<lparr>init_database := Some (Exception ''OperationalError'' ''unable to open database file'')\<rparr>)
       [GET_root]
     = Startup_failed [Call_init_database] example_app
         (Exception ''OperationalError'' ''unable to open database file'')"
proof -
  let ?e = "Exception ''OperationalError'' ''unable to open database file''"
  let ?x = "example_externals\<lparr>init_database := Some ?e\<rparr>"
  have i: "init_database ?x = Some ?e"
    by simp
  have m: "module_import ?x = Inr example_module"
    by (simp add: module_import_def example_externals_def example_create_app example_module_def)
  show ?thesis
    using init_database_first_and_fatal [where x = ?x and e = ?e and m = example_module
        and cs = "[GET_root]"] i m
    by (simp add: example_module_def)
qed

section \<open>The cross-origin policy\<close>

lemma lifespan_startup_middleware:
  "user_middleware (fst (snd (lifespan_startup x a))) = user_middleware a"
  by (auto simp: lifespan_startup_def expose_ai_flag_def Let_def
        split: option.splits sum.splits)

text \<open>
  C6. When the import-time configuration load returns, the import succeeds and the
  application carries exactly one CORS middleware: its allowed origins are the
  one-element list holding the value of \<^verbatim>\<open>CLIENT_URL\<close> in the environment (as
  \<^verbatim>\<open>load_dotenv\<close> left it), or \<^verbatim>\<open>["*"]\<close> when the variable is unset; credentials
  are allowed; allowed methods and allowed headers are both \<^verbatim>\<open>["*"]\<close>. The startup
  phase and the served calls leave the middleware as it is, so one policy holds for every
  request.
\<close>

theorem cors_policy_static:
  assumes "get_config_at_import x = Inr cfg"
  shows "\<exists>m. module_import x = Inr m
     \<and> user_middleware (app m) =
         [\<lparr>allow_origins = [case load_dotenv x (os_environ x) ''CLIENT_URL'' of
                               None \<Rightarrow> ''*'' | Some url \<Rightarrow> url],
           allow_credentials = True, allow_methods = [''*''], allow_headers = [''*'']\<rparr>]
     \<and> user_middleware (fst (snd (lifespan_startup x (app m)))) = user_middleware (app m)
     \<and> snd (serve m cs) = m"
proof -
  let ?env = "load_dotenv x (os_environ x)"
  obtain a sd where a: "create_app ?env (import_fs x) (module_file x) = Inr (a, sd)"
    using create_app_total by blast
  let ?m = "\<lparr>config = cfg, app = a, static_dir = sd\<rparr>"
  have "module_import x = Inr ?m"
    using assms a by (simp add: module_import_def)
  moreover have "user_middleware (app ?m) =
         [\<lparr>allow_origins = [case ?env ''CLIENT_URL'' of None \<Rightarrow> ''*'' | Some url \<Rightarrow> url],
           allow_credentials = True, allow_methods = [''*''], allow_headers = [''*'']\<rparr>]"
    using create_app_middleware [OF a] by (simp add: os_getenv_def)
  moreover have "user_middleware (fst (snd (lifespan_startup x (app ?m)))) = user_middleware (app ?m)"
    by (rule lifespan_startup_middleware)
  moreover have "snd (serve ?m cs) = ?m"
    by (simp add: serve_eq)
  ultimately show ?thesis by blast
qed

text \<open>
  The theorem at the example deployment, where \<^verbatim>\<open>CLIENT_URL\<close> is set, and at the same
  deployment with an empty environment.
\<close>

theorem cors_policy_static_witness:
  "(\<exists>m. module_import example_externals = Inr m
        \<and> map allow_origins (user_middleware (app m)) = [[''https://shop.example'']])
   \<and> (\<exists>m. module_import (example_externals\<lparr>os_environ := Map.empty\<rparr>) = Inr m
        \<and> map allow_origins (user_middleware (app m)) = [[''*'']])"
proof -
  let ?cfg = "\<lparr>gemini_api_key = None, allowed_origin = ''*''\<rparr>"
  let ?y = "example_externals\<lparr>os_environ := Map.empty\<rparr>"
  have g1: "get_config_at_import example_externals = Inr ?cfg"
    and g2: "get_config_at_import ?y = Inr ?cfg"
    by (simp_all add: example_externals_def)
  have e1: "load_dotenv example_externals (os_environ example_externals) ''CLIENT_URL''
              = Some ''https://shop.example''"
    and e2: "load_dotenv ?y (os_environ ?y) ''CLIENT_URL'' = None"
    by (simp_all add: example_externals_def)
  have "\<exists>m. module_import example_externals = Inr m
        \<and> map allow_origins (user_middleware (app m)) = [[''https://shop.example'']]"
    using cors_policy_static [OF g1, of "[]"] e1 by auto
  moreover have "\<exists>m. module_import ?y = Inr m
        \<and> map allow_origins (user_middleware (app m)) = [[''*'']]"
    using cors_policy_static [OF g2, of "[]"] e2 by auto
  ultimately show ?thesis by (rule conjI)
qed

section \<open>The favicon endpoint\<close>

text \<open>
  The handler itself never raises and leaves the module's state alone: it returns a
  \<^verbatim>\<open>FileResponse\<close> when \<^verbatim>\<open>os.path.exists\<close> holds for \<^verbatim>\<open>favicon.svg\<close> in
  the static directory and the not-found dictionary otherwise. After an import the
  static directory is the directory \<^verbatim>\<open>static\<close> beside the module file.
\<close>

lemma favicon_handler:
  "favicon fs m =
     (if path_exists fs (os_path_join (static_dir m) ''favicon.svg'')
      then Inr (FileResponse (os_path_join (static_dir m) ''favicon.svg'') 200 ''image/svg+xml'')
      else Inr (Dict [(''detail'', JStr ''favicon not found'')]), m)"
  by (simp add: favicon_def Let_def)

lemma module_import_static_dir:
  assumes "module_import x = Inr m"
  shows "static_dir m = os_path_join (os_path_dirname (module_file x)) ''static''"
proof -
  obtain a where "create_app (load_dotenv x (os_environ x)) (import_fs x) (module_file x)
      = Inr (a, os_path_join (os_path_dirname (module_file x)) ''static'')"
    using create_app_total by blast
  with assms show ?thesis
    by (auto simp: module_import_def split: sum.splits)
qed

text \<open>
  From the handler to the wire there are three cases. Nothing at the path: the
  not-found payload with status 200. A regular file at the path: the file with media
  type \<^verbatim>\<open>image/svg+xml\<close> and status 200. Something else at the path: the guard of the
  handler lets it pass, and sending the \<^verbatim>\<open>FileResponse\<close> raises \<^verbatim>\<open>RuntimeError\<close>.
\<close>

lemma get_favicon_ico_cases:
  "get_favicon_ico fs m =
     (if \<not> path_exists fs (os_path_join (static_dir m) ''favicon.svg'')
      then Inr (Json_sent 200 [(''detail'', JStr ''favicon not found'')])
      else if path_isfile fs (os_path_join (static_dir m) ''favicon.svg'')
      then Inr (File_sent 200 (os_path_join (static_dir m) ''favicon.svg'') ''image/svg+xml'')
      else Inl (Exception ''RuntimeError''
             (''File at path '' @ os_path_join (static_dir m) ''favicon.svg''
                @ '' is not a file.'')))"
  by (simp add: get_favicon_ico_def favicon_handler deliver_def)

text \<open>
  C7 asks for the SVG file when the file \<^verbatim>\<open>static/favicon.svg\<close> exists and for the
  payload \<^verbatim>\<open>{"detail": "favicon not found"}\<close> otherwise, on every file system and
  without an exception. The code departs from that where \<^verbatim>\<open>favicon.svg\<close> is a
  directory: in the imported example module the handler returns a \<^verbatim>\<open>FileResponse\<close>
  for the directory, and the request ends in \<^verbatim>\<open>RuntimeError\<close> instead of the not-found
  payload.
\<close>

theorem favicon_directory_raises:
  "module_import example_externals = Inr example_module
   \<and> fst (favicon favicon_directory_fs example_module)
       = Inr (FileResponse ''/srv/app/static/favicon.svg'' 200 ''image/svg+xml'')
   \<and> get_favicon_ico favicon_directory_fs example_module
       = Inl (Exception ''RuntimeError''
            ''File at path /srv/app/static/favicon.svg is not a file.'')
   \<and> get_favicon_ico favicon_directory_fs example_module
       \<noteq> Inr (Json_sent 200 [(''detail'', JStr ''favicon not found'')])"
proof -
  have p: "os_path_join (static_dir example_module) ''favicon.svg''
             = ''/srv/app/static/favicon.svg''"
    by (simp add: example_module_def os_path_join_def)
  have "fst (favicon favicon_directory_fs example_module)
       = Inr (FileResponse ''/srv/app/static/favicon.svg'' 200 ''image/svg+xml'')"
    by (simp add: favicon_handler p favicon_directory_fs_def)
  moreover have "get_favicon_ico favicon_directory_fs example_module
       = Inl (Exception ''RuntimeError''
            ''File at path /srv/app/static/favicon.svg is not a file.'')"
    by (simp add: get_favicon_ico_cases p favicon_directory_fs_def)
  ultimately show ?thesis
    using example_import by simp
qed

section \<open>The root endpoint\<close>

text \<open>
  C8. The root handler returns one fixed metadata object and leaves the state alone:
  the answer is the same in every state, it cannot be an exception, its version is
  "1.0.0", and its endpoints map has exactly the keys demand_forecasting,
  inventory_management, logistics_tracking, scenario_analysis and reports.
\<close>

theorem root_static_metadata:
  "root m =
     (Inr (Dict
        [(''name'', JStr ''AI Supply Chain Management Platform''),
         (''version'', JStr ''1.0.0''),
         (''description'', JStr ''AI-powered supply chain management for Indian retail businesses''),
         (''ai_model'', JStr ''Gemini 2.5 Pro''),
         (''market_focus'', JStr ''Indian Retail MSME''),
         (''endpoints'', JObj
            [(''demand_forecasting'', JStr ''/api/demand/forecast''),
             (''inventory_management'', JStr ''/api/inventory/''),
             (''logistics_tracking'', JStr ''/api/logistics/shipments''),
             (''scenario_analysis'', JStr ''/api/scenarios/analyze''),
             (''reports'', JStr ''/api/reports/'')])]), m)
   \<and> fst (handle GET_root m) = fst (handle GET_root m')
   \<and> (\<exists>r eps. fst (handle GET_root m) = Inr r
         \<and> map_of (body r) ''version'' = Some (JStr ''1.0.0'')
         \<and> map_of (body r) ''endpoints'' = Some (JObj eps)
         \<and> map fst eps = [''demand_forecasting'', ''inventory_management'',
              ''logistics_tracking'', ''scenario_analysis'', ''reports''])"
  by (simp add: root_def)

section \<open>The static mount\<close>

text \<open>
  C9. Building the application never fails, whatever the file system. The mounts it
  registers are the single mount of the static directory under \<^verbatim>\<open>/static\<close> when that
  directory exists and none when it does not: a mount under \<^verbatim>\<open>/static\<close> is
  registered if and only if the directory exists.
\<close>

theorem static_mount_iff_directory:
  "\<exists>a. create_app env fs file = Inr (a, os_path_join (os_path_dirname file) ''static'')
     \<and> filter is_mount (routes a) =
         (if path_isdir fs (os_path_join (os_path_dirname file) ''static'')
          then [Mount ''/static'' (os_path_join (os_path_dirname file) ''static'') ''static'']
          else [])
     \<and> (\<exists>d n. Mount ''/static'' d n \<in> set (routes a))
         = path_isdir fs (os_path_join (os_path_dirname file) ''static'')"
  by (simp add: create_app_def StaticFiles_def Let_def add_route_def add_middleware_def
        exception_handler_def FastAPI_def is_mount_def)

section \<open>The import-time configuration snapshot\<close>

lemma handle_config: "fst (handle c (m\<lparr>config := k\<rparr>)) = fst (handle c m)"
  by (cases c) (simp_all add: root_def health_check_def favicon_def global_exception_handler_def
       Let_def split: option.split)

lemma expose_ai_flag_import_config:
  "expose_ai_flag (x\<lparr>get_config_at_import := g\<rparr>) a = expose_ai_flag x a"
  by (simp add: expose_ai_flag_def)

lemma lifespan_startup_import_config:
  "lifespan_startup (x\<lparr>get_config_at_import := g\<rparr>) a = lifespan_startup x a"
  by (simp add: lifespan_startup_def expose_ai_flag_import_config split: option.split)

text \<open>
  C10. The configuration snapshot taken at import time is never read. Two runs whose
  externals differ only in that snapshot have the same result: the same effects, the
  same responses to the same calls, the same application at the end (the flag
  included). No handler's response depends on the module's \<^verbatim>\<open>config\<close> global, and the
  startup phase is the same for both.
\<close>

theorem import_snapshot_never_read:
  "run (x\<lparr>get_config_at_import := Inr c1\<rparr>) cs = run (x\<lparr>get_config_at_import := Inr c2\<rparr>) cs
   \<and> fst (handle c (m\<lparr>config := c1\<rparr>)) = fst (handle c (m\<lparr>config := c2\<rparr>))
   \<and> lifespan_startup (x\<lparr>get_config_at_import := Inr c1\<rparr>) a
       = lifespan_startup (x\<lparr>get_config_at_import := Inr c2\<rparr>) a"
proof -
  obtain a0 sd where a0: "create_app (load_dotenv x (os_environ x)) (import_fs x) (module_file x)
        = Inr (a0, sd)"
    using create_app_total by blast
  have imp: "module_import (x\<lparr>get_config_at_import := Inr k\<rparr>)
          = Inr \<lparr>config = k, app = a0, static_dir = sd\<rparr>" for k
    using a0 by (simp add: module_import_def)
  have run_eq: "run (x\<lparr>get_config_at_import := Inr k\<rparr>) cs =
      (case lifespan_startup x a0 of
         (tr, a', Some e) \<Rightarrow> Startup_failed tr a' e
       | (tr, a', None) \<Rightarrow>
           Completed (tr @ [Print msg_shutting_down])
             (map (\<lambda>c. fst (handle c \<lparr>config = c1, app = a', static_dir = sd\<rparr>)) cs) a')" for k
  proof -
    have "fst (handle c \<lparr>config = k, app = a', static_dir = sd\<rparr>)
        = fst (handle c \<lparr>config = c1, app = a', static_dir = sd\<rparr>)" for c a'
      using handle_config [where c = c and m = "\<lparr>config = k, app = a', static_dir = sd\<rparr>" and k = c1]
      by simp
    then show ?thesis
      by (simp add: run_def imp lifespan_startup_import_config serve_eq lifespan_shutdown_def
            split: prod.splits option.splits)
  qed
  have "run (x\<lparr>get_config_at_import := Inr c1\<rparr>) cs = run (x\<lparr>get_config_at_import := Inr c2\<rparr>) cs"
    by (simp only: run_eq)
  then show ?thesis
    by (simp add: handle_config lifespan_startup_import_config)
qed

end
